theory Spec2Isabelle
  imports Complex_Main "HOL-Library.Sublist"
begin

section \<open>Text\<close>

text \<open>
  Python text is modelled as \<^typ>\<open>string\<close>. The model covers ASCII text: \<open>str.lower\<close>
  maps the letters \<open>A\<close> to \<open>Z\<close> to \<open>a\<close> to \<open>z\<close> and leaves every other
  character as it is; \<open>str.upper\<close> is its mirror image.
\<close>

definition lower_char :: "char \<Rightarrow> char" where
  "lower_char c =
     (case map_of (zip ''ABCDEFGHIJKLMNOPQRSTUVWXYZ'' ''abcdefghijklmnopqrstuvwxyz'') c of
        Some d \<Rightarrow> d
      | None \<Rightarrow> c)"

definition upper_char :: "char \<Rightarrow> char" where
  "upper_char c =
     (case map_of (zip ''abcdefghijklmnopqrstuvwxyz'' ''ABCDEFGHIJKLMNOPQRSTUVWXYZ'') c of
        Some d \<Rightarrow> d
      | None \<Rightarrow> c)"

definition lower :: "string \<Rightarrow> string" where
  "lower s = map lower_char s"

text \<open>\<open>p in s\<close> on two strings: \<open>p\<close> occurs in \<open>s\<close> as a contiguous run.\<close>

fun py_in :: "string \<Rightarrow> string \<Rightarrow> bool" where
  "py_in p [] = (p = [])"
| "py_in p (c # cs) = (prefix p (c # cs) \<or> py_in p cs)"

text \<open>
  Case-insensitive containment, as the specification words it: both sides are compared
  after lowering.
\<close>

definition ci_in :: "string \<Rightarrow> string \<Rightarrow> bool" where
  "ci_in p s = py_in (lower p) (lower s)"

section \<open>Classifier tables\<close>

text \<open>
  The two dictionaries of \<open>__init__\<close>. A Python dictionary is iterated in insertion order,
  so each is an association list in the order of the source.
\<close>

definition severity_patterns :: "(string \<times> string list) list" where
  "severity_patterns =
     [(''critical'', [''terrible'', ''awful'', ''wrong'', ''bad'', ''broken'', ''horrible'',
                      ''disaster'']),
      (''major'', [''inefficient'', ''slow'', ''poor'', ''unclear'', ''confusing'',
                   ''problematic'']),
      (''minor'', [''consider'', ''could be'', ''might'', ''perhaps'', ''small'', ''minor'']),
      (''style'', [''format'', ''style'', ''convention'', ''naming'', ''whitespace'',
                   ''indentation''])]"

definition language_patterns :: "(string \<times> string list) list" where
  "language_patterns =
     [(''python'', [''def '', ''import '', ''class '', '':'', ''elif'', ''lambda'']),
      (''javascript'', [''function'', ''var '', ''let '', ''const '', ''=>'', ''console.log'']),
      (''java'', [''public class'', ''private '', ''public '', ''static '', ''void main'']),
      (''cpp'', [''#include'', ''std::'', ''cout'', ''endl'', ''int main()'']),
      (''csharp'', [''using System'', ''public class'', ''Console.WriteLine'', ''namespace''])]"

definition patterns_of :: "(string \<times> string list) list \<Rightarrow> string \<Rightarrow> string list" where
  "patterns_of table tag = (case map_of table tag of Some ps \<Rightarrow> ps | None \<Rightarrow> [])"

section \<open>detect_programming_language\<close>

text \<open>\<open>sum(1 for pattern in patterns if pattern in code_lower)\<close>\<close>

definition score :: "string list \<Rightarrow> string \<Rightarrow> nat" where
  "score patterns code_lower = length (filter (\<lambda>pattern. py_in pattern code_lower) patterns)"

text \<open>The \<open>for\<close> loop over the items of the table, with its early return and its default.\<close>

fun detect_loop :: "(string \<times> string list) list \<Rightarrow> string \<Rightarrow> string" where
  "detect_loop [] code_lower = ''python''"
| "detect_loop ((language, patterns) # rest) code_lower =
     (if score patterns code_lower \<ge> 2 then language else detect_loop rest code_lower)"

definition detect_programming_language :: "string \<Rightarrow> string" where
  "detect_programming_language code_snippet = detect_loop language_patterns (lower code_snippet)"

text \<open>
  The detection as the specification words it: the number of a language's tokens that
  occur in the snippet case-insensitively, and the first language in table order whose
  number is at least 2, \<open>python\<close> when there is none.
\<close>

definition ci_score :: "string list \<Rightarrow> string \<Rightarrow> nat" where
  "ci_score patterns snippet = length (filter (\<lambda>pattern. ci_in pattern snippet) patterns)"

definition detect_language_spec :: "string \<Rightarrow> string" where
  "detect_language_spec snippet =
     (case find (\<lambda>entry. ci_score (snd entry) snippet \<ge> 2) language_patterns of
        Some entry \<Rightarrow> fst entry
      | None \<Rightarrow> ''python'')"

section \<open>classify_comment_severity\<close>

fun classify_loop :: "(string \<times> string list) list \<Rightarrow> string \<Rightarrow> string" where
  "classify_loop [] comment_lower = ''minor''"
| "classify_loop ((severity, patterns) # rest) comment_lower =
     (if list_ex (\<lambda>pattern. py_in pattern comment_lower) patterns then severity
      else classify_loop rest comment_lower)"

definition classify_comment_severity :: "string \<Rightarrow> string" where
  "classify_comment_severity comment = classify_loop severity_patterns (lower comment)"

text \<open>
  The classification as the specification words it: a comment matches a keyword set when
  one of the set's keywords occurs in it case-insensitively, and the sets are tried in
  the order critical, major, minor, style.
\<close>

definition matches_set :: "string \<Rightarrow> string \<Rightarrow> bool" where
  "matches_set tag comment =
     list_ex (\<lambda>keyword. ci_in keyword comment) (patterns_of severity_patterns tag)"

definition classify_severity_spec :: "string \<Rightarrow> string" where
  "classify_severity_spec comment =
     (if matches_set ''critical'' comment then ''critical''
      else if matches_set ''major'' comment then ''major''
      else if matches_set ''minor'' comment then ''minor''
      else if matches_set ''style'' comment then ''style''
      else ''minor'')"

section \<open>get_documentation_links\<close>

definition python_links :: "string \<Rightarrow> string list" where
  "python_links topic =
     (if py_in ''efficiency'' (lower topic) \<or> py_in ''performance'' (lower topic)
      then [''https://docs.python.org/3/tutorial/datastructures.html#list-comprehensions'',
            ''https://docs.python.org/3/library/itertools.html'']
      else [])
     @ (if py_in ''naming'' (lower topic) \<or> py_in ''convention'' (lower topic)
        then [''https://peps.python.org/pep-0008/#naming-conventions'']
        else [])
     @ (if py_in ''boolean'' (lower topic)
        then [''https://docs.python.org/3/library/stdtypes.html#truth-value-testing'']
        else [])
     @ (if py_in ''function'' (lower topic) \<or> py_in ''method'' (lower topic)
        then [''https://docs.python.org/3/tutorial/controlflow.html#defining-functions'']
        else [])"

definition javascript_links :: "string \<Rightarrow> string list" where
  "javascript_links topic =
     (if py_in ''efficiency'' (lower topic)
      then [''https://developer.mozilla.org/en-US/docs/Web/JavaScript/Reference/Global_Objects/Array'']
      else [])
     @ (if py_in ''naming'' (lower topic)
        then [''https://developer.mozilla.org/en-US/docs/MDN/Writing_guidelines/Writing_style_guide/Code_style_guide/JavaScript#naming_conventions'']
        else [])"

definition generic_link :: string where
  "generic_link = ''https://en.wikipedia.org/wiki/Software_engineering_best_practices''"

text \<open>The links gathered by the language branches, before the generic default.\<close>

definition rule_links :: "string \<Rightarrow> string \<Rightarrow> string list" where
  "rule_links language topic =
     (if language = ''python'' then python_links topic
      else if language = ''javascript'' then javascript_links topic
      else [])"

definition get_documentation_links :: "string \<Rightarrow> string \<Rightarrow> string list" where
  "get_documentation_links language topic =
     (let links = rule_links language topic;
          links = (if links = [] then links @ [generic_link] else links)
      in take 2 links)"

section \<open>Formatting\<close>

text \<open>Each line of a template followed by a line feed.\<close>

definition lines_text :: "string list \<Rightarrow> string" where
  "lines_text ls = concat (map (\<lambda>l. l @ ''\<newline>'') ls)"

text \<open>\<open>chr(10).join(parts)\<close>\<close>

fun join_nl :: "string list \<Rightarrow> string" where
  "join_nl [] = []"
| "join_nl [x] = x"
| "join_nl (x # y # ys) = x @ ''\<newline>'' @ join_nl (y # ys)"

text \<open>The decimal numeral that an f-string prints for a length.\<close>

definition digit_char :: "nat \<Rightarrow> char" where
  "digit_char d = ''0123456789'' ! (d mod 10)"

function str_nat :: "nat \<Rightarrow> string" where
  "str_nat n = (if n < 10 then [digit_char n] else str_nat (n div 10) @ [digit_char (n mod 10)])"
  by pat_completeness auto
termination
  by (relation "measure id") auto

declare str_nat.simps [simp del]

text \<open>
  \<open>str.title\<close>: a letter that follows a letter is lowered, any other letter is raised.
\<close>

definition is_cased :: "char \<Rightarrow> bool" where
  "is_cased c =
     (c \<in> set (''ABCDEFGHIJKLMNOPQRSTUVWXYZ'' @ ''abcdefghijklmnopqrstuvwxyz''))"

fun title_from :: "bool \<Rightarrow> string \<Rightarrow> string" where
  "title_from previous_is_cased [] = []"
| "title_from previous_is_cased (c # cs) =
     (if previous_is_cased then lower_char c else upper_char c) # title_from (is_cased c) cs"

definition title :: "string \<Rightarrow> string" where
  "title s = title_from False s"

section \<open>Values and errors\<close>

text \<open>
  What \<open>json.load\<close> yields. A dictionary is an association list that is read with
  \<^const>\<open>map_of\<close>: the first pair of a key is the dictionary's entry for it.
\<close>

datatype json =
  JNull
| JBool bool
| JInt int
| JFloat rat
| JStr string
| JList "json list"
| JDict "(string \<times> json) list"

fun type_name :: "json \<Rightarrow> string" where
  "type_name JNull = ''NoneType''"
| "type_name (JBool b) = ''bool''"
| "type_name (JInt i) = ''int''"
| "type_name (JFloat r) = ''float''"
| "type_name (JStr s) = ''str''"
| "type_name (JList xs) = ''list''"
| "type_name (JDict kvs) = ''dict''"

text \<open>\<open>isinstance(v, list)\<close>\<close>

fun is_list :: "json \<Rightarrow> bool" where
  "is_list (JList xs) = True"
| "is_list v = False"

text \<open>
  The exceptions of the model, each with the text that \<open>str(e)\<close> gives. \<open>ClientError\<close>
  stands for whatever the model client raises, or the reading of its response raises,
  inside the \<open>try\<close> of \<open>analyze_code_review\<close>. Only subclasses of \<open>Exception\<close> are
  modelled; an interrupt from the keyboard while the client waits is not.
\<close>

datatype py_error =
  ValueError string
| AttributeError string
| ClientError string

fun message :: "py_error \<Rightarrow> string" where
  "message (ValueError m) = m"
| "message (AttributeError m) = m"
| "message (ClientError m) = m"

text \<open>The error of \<open>v.lower()\<close> on a value that is not a \<open>str\<close>.\<close>

definition no_lower :: "json \<Rightarrow> py_error" where
  "no_lower v =
     AttributeError
       ([CHR 0x27] @ type_name v @ [CHR 0x27] @ '' object has no attribute 'lower'' @ [CHR 0x27])"

text \<open>
  The effects that the claims speak of: how often the model client was called, and the
  files written, oldest first. Logging and printing are left out.
\<close>

record world =
  model_calls :: nat
  files :: "(string \<times> string) list"

text \<open>
  The readings of the clock, already formatted: \<open>strftime('%Y-%m-%d %H:%M:%S')\<close> for the
  report and for the error report, \<open>:.2f\<close> of the elapsed seconds, and
  \<open>strftime('%Y%m%d_%H%M%S')\<close> for the file name.
\<close>

record clock =
  generated :: string
  processing_time :: string
  error_time :: string
  file_timestamp :: string

section \<open>analyze_code_review\<close>

text \<open>
  The loop that builds \<open>comment_analysis\<close>: each comment with its severity. A comment that
  is not a \<open>str\<close> raises in \<open>comment.lower()\<close>, at the first such comment.
\<close>

fun analyse_comments :: "json list \<Rightarrow> py_error + (string \<times> string) list" where
  "analyse_comments [] = Inr []"
| "analyse_comments (JStr comment # rest) =
     (case analyse_comments rest of
        Inl e \<Rightarrow> Inl e
      | Inr comment_analysis \<Rightarrow>
          Inr ((comment, classify_comment_severity comment) # comment_analysis))"
| "analyse_comments (v # rest) = Inl (no_lower v)"

text \<open>One entry of the list that the fallback joins.\<close>

definition fallback_entry :: "string \<Rightarrow> string" where
  "fallback_entry comment =
     ''**Original**: '' @ comment @ ''\<newline>''
     @ ''**Supportive Approach**: Let's explore how we can improve this area together.''
     @ ''\<newline>''"

definition generate_fallback_analysis :: "string \<Rightarrow> string list \<Rightarrow> string" where
  "generate_fallback_analysis code_snippet review_comments =
     lines_text
       ['''',
        ''# Empathetic Code Review Report'',
        '''',
        ''## Analysis Error Recovery'',
        '''',
        ''I encountered an issue while generating the full empathetic analysis. Here's a basic supportive framework:'',
        '''',
        ''### Code Review Comments Transformation'',
        '''',
        join_nl (map fallback_entry review_comments),
        '''',
        ''### Code Snippet Analysis'',
        ''```python'',
        code_snippet,
        ''```'',
        '''',
        ''### Encouragement'',
        ''Every developer is on a learning journey, and code reviews are valuable opportunities for growth. The suggestions provided are meant to help you write even better code and develop stronger programming skills.'',
        '''',
        ''*Note: This is a fallback analysis due to API limitations. The full system would provide detailed, empathetic feedback for each comment.*'']"

text \<open>
  \<open>response\<close> is what the one call of the model client comes to: the content of its first
  choice, or the exception raised on the way. The two prompts only travel to the client
  and are not modelled. The language is detected first and the comments are classified
  next, both before the \<open>try\<close>, so their errors leave the function.
\<close>

definition analyze_code_review ::
  "py_error + string \<Rightarrow> json \<Rightarrow> json list \<Rightarrow> world \<Rightarrow> (py_error + string) \<times> world" where
  "analyze_code_review response code_snippet review_comments w =
     (case code_snippet of
        JStr code \<Rightarrow>
          (case analyse_comments review_comments of
             Inl e \<Rightarrow> (Inl e, w)
           | Inr comment_analysis \<Rightarrow>
               (let w' = w\<lparr>model_calls := Suc (model_calls w)\<rparr> in
                case response of
                  Inr analysis_result \<Rightarrow> (Inr analysis_result, w')
                | Inl e \<Rightarrow>
                    (Inr (generate_fallback_analysis code (map fst comment_analysis)), w')))
      | v \<Rightarrow> (Inl (no_lower v), w))"

section \<open>generate_review_report\<close>

definition header_lines :: "string \<Rightarrow> nat \<Rightarrow> clock \<Rightarrow> string list" where
  "header_lines language n clk =
     [''# Empathetic Code Review Report'',
      '''',
      ''**Generated:** '' @ generated clk,
      ''**Language Detected:** '' @ title language,
      ''**Comments Analyzed:** '' @ str_nat n,
      ''**Processing Time:** '' @ processing_time clk @ '' seconds'',
      '''',
      ''---'',
      '''']"

definition footer_lines :: "string list" where
  "footer_lines =
     ['''',
      ''---'',
      '''',
      ''## Review Summary & Encouragement'',
      '''',
      ''This code review represents an excellent opportunity for growth and learning. Every piece of feedback is meant to help you become an even stronger developer. Remember that all experienced developers have been through similar learning experiences, and each suggestion is a stepping stone toward writing more robust, maintainable code.'',
      '''',
      ''Keep up the great work, stay curious, and remember that coding is a journey of continuous improvement. Your willingness to receive feedback shows professionalism and dedication to your craft.'',
      '''',
      ''## Technical Details'',
      ''- **Analysis Model:** GPT-4 with Empathetic Mentoring Prompts'',
      ''- **Contextual Awareness:** Severity-based tone adaptation'',
      ''- **Educational Focus:** Software engineering principles and best practices'',
      ''- **Code Quality:** Production-ready improvements with explanations'',
      '''',
      ''*This empathetic analysis was generated by the Empathetic Code Reviewer - Mission 1 Solution, designed to transform critical feedback into constructive growth opportunities.*'']"

text \<open>The f-string \<open>report\<close>: the header, the analysis as it is, the footer.\<close>

definition report_text :: "string \<Rightarrow> nat \<Rightarrow> clock \<Rightarrow> string \<Rightarrow> string" where
  "report_text language n clk analysis =
     lines_text (header_lines language n clk @ [analysis] @ footer_lines)"

definition error_report_text :: "clock \<Rightarrow> string \<Rightarrow> string" where
  \<open>error_report_text clk details =
     lines_text
       [''# Empathetic Code Review - Error Report'',
        '''',
        ''**Error Time:** '' @ error_time clk,
        ''**Error Details:** '' @ details,
        '''',
        ''## Error Analysis'',
        '''',
        ''The Empathetic Code Reviewer encountered an issue while processing your request. This could be due to:'',
        '''',
        ''### Possible Causes'',
        ''- **Input Format**: Ensure JSON contains 'code_snippet' and 'review_comments' keys'',
        ''- **API Limits**: OpenAI API quotas or rate limits may have been exceeded'',
        ''- **Network Issues**: Temporary connectivity problems'',
        ''- **Invalid Code**: Code snippet may contain parsing issues'',
        '''',
        ''### Recommended Solutions'',
        ''1. **Verify Input Format**: Ensure your input follows the required JSON structure'',
        ''2. **Check API Key**: Verify your OpenAI API key is valid and has available credits'',
        ''3. **Try Again**: Temporary issues often resolve with retry'',
        ''4. **Use Demo Mode**: Run the demo version to see expected output format'',
        '''',
        ''### Example Input Format'',
        ''```json'',
        ''{'',
        ''  "code_snippet": "def example_function():'',
        ''    return 'Hello World'",'',
        ''  "review_comments": ["This function could be improved", "Consider adding documentation"]'',
        ''}'',
        ''```'',
        '''',
        ''Even when encountering technical issues, remember that the goal of code review is always to support your growth as a developer. Technical difficulties are just part of the programming journey!'',
        '''',
        ''*Error handling by Empathetic Code Reviewer - Mission 1 Solution*'']\<close>

definition missing_keys_message :: string where
  "missing_keys_message = ''Input must contain 'code_snippet' and 'review_comments' keys''"

definition not_a_list_message :: string where
  "not_a_list_message = [CHR 0x27] @ ''review_comments' must be a list''"

text \<open>
  The body of the \<open>try\<close>, on an input dictionary. The language is detected a second time for the header; the
  snippet is a \<open>str\<close> there, since \<open>analyze_code_review\<close> returned.
\<close>

definition report_body ::
  "py_error + string \<Rightarrow> clock \<Rightarrow> (string \<times> json) list \<Rightarrow> world \<Rightarrow>
     (py_error + string) \<times> world"
  where
  "report_body response clk input_data w =
     (case (map_of input_data ''code_snippet'', map_of input_data ''review_comments'') of
        (Some code_snippet, Some review_comments) \<Rightarrow>
          (case review_comments of
             JList comments \<Rightarrow>
               (case analyze_code_review response code_snippet comments w of
                  (Inl e, w') \<Rightarrow> (Inl e, w')
                | (Inr analysis, w') \<Rightarrow>
                    (case code_snippet of
                       JStr code \<Rightarrow>
                         (Inr (report_text (detect_programming_language code)
                                 (length comments) clk analysis), w')
                     | v \<Rightarrow> (Inl (no_lower v), w')))
           | v \<Rightarrow> (Inl (ValueError not_a_list_message), w))
      | missing \<Rightarrow> (Inl (ValueError missing_keys_message), w))"

text \<open>The \<open>try\<close> with its handler: every exception becomes the error report.\<close>

definition generate_review_report ::
  "py_error + string \<Rightarrow> clock \<Rightarrow> (string \<times> json) list \<Rightarrow> world \<Rightarrow>
     (py_error + string) \<times> world"
  where
  "generate_review_report response clk input_data w =
     (case report_body response clk input_data w of
        (Inr report, w') \<Rightarrow> (Inr report, w')
      | (Inl e, w') \<Rightarrow> (Inr (error_report_text clk (message e)), w'))"

section \<open>main\<close>

text \<open>
  What the process finds around it: its arguments, whether the input file exists, the
  credential, what opening and parsing the input file come to, the answer of the model
  client, the clock, and the failure of writing the output file if there is one. The
  construction of the reviewer with a credential at hand is taken to succeed, and an
  interrupt from the keyboard is not modelled, so the handler for it has no ending here.
\<close>

datatype load_result =
  JSONDecodeError string
| LoadError string
| Loaded "(string \<times> json) list"

text \<open>
  How \<open>with open(filename, 'w') as f: f.write(report)\<close> can fail, each time with the text
  of the exception. When \<open>open\<close> raises, no file is made. When \<open>write\<close> raises, \<open>open\<close>
  has made the file already, or emptied the one that was there, and the file keeps the
  leading characters of the report that were written before the failure, \<open>n\<close> of them.
\<close>

datatype write_failure =
  OpenFailed string
| WriteFailed string nat

record environment =
  argv :: "string list"
  input_exists :: bool
  api_key :: "string option"
  loaded :: load_result
  response :: "py_error + string"
  clk :: clock
  write_error :: "write_failure option"

text \<open>How a run ends: each early return and each handler of \<open>main\<close> is one ending.\<close>

datatype ending =
  UsageError
| InputNotFound
| ApiKeyRequired
| InvalidJson string
| ErrorPrinted string
| ReportSaved string

definition output_filename :: "clock \<Rightarrow> string" where
  "output_filename c = ''empathetic_review_report_'' @ file_timestamp c @ ''.md''"

definition main :: "environment \<Rightarrow> world \<Rightarrow> ending \<times> world" where
  "main env w =
     (if length (argv env) \<noteq> 2 then (UsageError, w)
      else if \<not> input_exists env then (InputNotFound, w)
      else if api_key env = None \<or> api_key env = Some [] then (ApiKeyRequired, w)
      else
        (case loaded env of
           JSONDecodeError m \<Rightarrow> (InvalidJson m, w)
         | LoadError m \<Rightarrow> (ErrorPrinted m, w)
         | Loaded input_data \<Rightarrow>
             (case generate_review_report (response env) (clk env) input_data w of
                (Inl e, w') \<Rightarrow> (ErrorPrinted (message e), w')
              | (Inr report, w') \<Rightarrow>
                  (case write_error env of
                     Some (OpenFailed m) \<Rightarrow> (ErrorPrinted m, w')
                   | Some (WriteFailed m n) \<Rightarrow>
                       (ErrorPrinted m,
                        w'\<lparr>files := files w' @ [(output_filename (clk env), take n report)]\<rparr>)
                   | None \<Rightarrow>
                       (ReportSaved (output_filename (clk env)),
                        w'\<lparr>files := files w' @ [(output_filename (clk env), report)]\<rparr>)))))"

section \<open>Facts about text\<close>

lemma py_in_iff: "py_in p s \<longleftrightarrow> (\<exists>a b. s = a @ p @ b)"
proof (induction s)
  case Nil
  then show ?case by auto
next
  case (Cons c cs)
  show ?case
  proof
    assume "py_in p (c # cs)"
    then consider "prefix p (c # cs)" | "py_in p cs" by auto
    then show "\<exists>a b. c # cs = a @ p @ b"
    proof cases
      case 1
      then obtain b where "c # cs = p @ b" by (auto simp: prefix_def)
      then have "c # cs = [] @ p @ b" by simp
      then show ?thesis by blast
    next
      case 2
      with Cons.IH obtain a b where "cs = a @ p @ b" by blast
      then have "c # cs = (c # a) @ p @ b" by simp
      then show ?thesis by blast
    qed
  next
    assume "\<exists>a b. c # cs = a @ p @ b"
    then obtain a b where ab: "c # cs = a @ p @ b" by blast
    show "py_in p (c # cs)"
    proof (cases a)
      case Nil
      with ab have "prefix p (c # cs)" by (simp add: prefix_def)
      then show ?thesis by simp
    next
      case (Cons x a')
      with ab have "cs = a' @ p @ b" by simp
      with Cons.IH have "py_in p cs" by blast
      then show ?thesis by simp
    qed
  qed
qed

lemma py_in_append: "py_in p (a @ p @ b)"
  by (auto simp: py_in_iff)


section \<open>Facts about the classifiers\<close>

lemma list_ex_ci_in:
  "list_all (\<lambda>k. lower k = k) ks \<Longrightarrow>
   list_ex (\<lambda>k. ci_in k c) ks = list_ex (\<lambda>k. py_in k (lower c)) ks"
  by (induction ks) (auto simp: ci_in_def)

lemma severity_keywords_lower:
  "list_all (\<lambda>k. lower k = k) (patterns_of severity_patterns ''critical'')"
  "list_all (\<lambda>k. lower k = k) (patterns_of severity_patterns ''major'')"
  "list_all (\<lambda>k. lower k = k) (patterns_of severity_patterns ''minor'')"
  "list_all (\<lambda>k. lower k = k) (patterns_of severity_patterns ''style'')"
  by code_simp+

lemma severity_patterns_entries:
  "severity_patterns =
     [(''critical'', patterns_of severity_patterns ''critical''),
      (''major'', patterns_of severity_patterns ''major''),
      (''minor'', patterns_of severity_patterns ''minor''),
      (''style'', patterns_of severity_patterns ''style'')]"
  by code_simp

lemma matches_set_code:
  "tag \<in> {''critical'', ''major'', ''minor'', ''style''} \<Longrightarrow>
   matches_set tag c = list_ex (\<lambda>k. py_in k (lower c)) (patterns_of severity_patterns tag)"
  unfolding matches_set_def
  using severity_keywords_lower by (auto intro!: list_ex_ci_in)

lemma classify_refines: "classify_comment_severity c = classify_severity_spec c"
proof -
  have "classify_comment_severity c =
     classify_loop
       [(''critical'', patterns_of severity_patterns ''critical''),
        (''major'', patterns_of severity_patterns ''major''),
        (''minor'', patterns_of severity_patterns ''minor''),
        (''style'', patterns_of severity_patterns ''style'')] (lower c)"
    unfolding classify_comment_severity_def using severity_patterns_entries by simp
  then show ?thesis
    by (simp add: classify_severity_spec_def matches_set_code)
qed

section \<open>Facts about the report\<close>

lemma lines_text_simps:
  "lines_text [] = []"
  "lines_text (l # ls) = l @ ''\<newline>'' @ lines_text ls"
  "lines_text (ls @ ms) = lines_text ls @ lines_text ms"
  by (simp_all add: lines_text_def)

lemma py_in_prefix: "py_in p (p @ b)"
  using py_in_append [of p "[]" b] by simp

lemma py_in_mono: "py_in p s \<Longrightarrow> py_in p (a @ s @ b)"
proof -
  assume "py_in p s"
  then obtain x y where "s = x @ p @ y" by (auto simp: py_in_iff)
  then have "a @ s @ b = (a @ x) @ p @ (y @ b)" by simp
  then show ?thesis unfolding py_in_iff by blast
qed

lemma py_in_line: "l \<in> set ls \<Longrightarrow> py_in p l \<Longrightarrow> py_in p (lines_text ls)"
proof -
  assume "l \<in> set ls" and p: "py_in p l"
  then obtain xs ys where "ls = xs @ l # ys" by (auto simp: in_set_conv_decomp)
  then have "lines_text ls = lines_text xs @ l @ (''\<newline>'' @ lines_text ys)"
    by (simp add: lines_text_simps)
  with py_in_mono [OF p] show ?thesis by simp
qed

lemma report_text_split:
  "report_text language n c analysis =
     lines_text (header_lines language n c) @ analysis @ ''\<newline>'' @ lines_text footer_lines"
  by (simp add: report_text_def lines_text_simps)

lemma analyse_comments_strs:
  "analyse_comments (map JStr cs) = Inr (map (\<lambda>c. (c, classify_comment_severity c)) cs)"
  by (induction cs) auto

lemma analyze_valid:
  "analyze_code_review resp (JStr code) (map JStr cs) w =
     (Inr (case resp of Inr a \<Rightarrow> a | Inl e \<Rightarrow> generate_fallback_analysis code cs),
      w\<lparr>model_calls := Suc (model_calls w)\<rparr>)"
  by (simp add: analyze_code_review_def analyse_comments_strs Let_def comp_def split: sum.splits)

lemma report_body_valid:
  assumes "map_of input_data ''code_snippet'' = Some (JStr code)"
    and "map_of input_data ''review_comments'' = Some (JList (map JStr cs))"
  shows "report_body resp c input_data w =
     (Inr (report_text (detect_programming_language code) (length cs) c
        (case resp of Inr a \<Rightarrow> a | Inl e \<Rightarrow> generate_fallback_analysis code cs)),
      w\<lparr>model_calls := Suc (model_calls w)\<rparr>)"
  using assms by (simp add: report_body_def analyze_valid)

lemma generate_valid:
  assumes "map_of input_data ''code_snippet'' = Some (JStr code)"
    and "map_of input_data ''review_comments'' = Some (JList (map JStr cs))"
  shows "generate_review_report resp c input_data w =
     (Inr (report_text (detect_programming_language code) (length cs) c
        (case resp of Inr a \<Rightarrow> a | Inl e \<Rightarrow> generate_fallback_analysis code cs)),
      w\<lparr>model_calls := Suc (model_calls w)\<rparr>)"
  using report_body_valid [OF assms] by (simp add: generate_review_report_def)

lemma generate_returns:
  "\<exists>s. fst (generate_review_report resp c input_data w) = Inr s"
  by (auto simp: generate_review_report_def split: prod.splits sum.splits)

lemma report_body_invalid:
  assumes "map_of input_data ''code_snippet'' = None \<or>
     map_of input_data ''review_comments'' = None"
  shows "report_body resp c input_data w = (Inl (ValueError missing_keys_message), w)"
  using assms by (auto simp: report_body_def split: option.splits)

lemma report_body_not_list:
  assumes "map_of input_data ''code_snippet'' = Some v"
    and "map_of input_data ''review_comments'' = Some r" and "\<not> is_list r"
  shows "report_body resp c input_data w = (Inl (ValueError not_a_list_message), w)"
  using assms by (cases r) (auto simp: report_body_def)

lemma join_nl_in: "c \<in> set cs \<Longrightarrow> py_in c (join_nl cs)"
proof (induction cs rule: join_nl.induct)
  case 1
  then show ?case by simp
next
  case (2 x)
  then show ?case using py_in_prefix [of x "[]"] by simp
next
  case (3 x y ys)
  show ?case
  proof (cases "c = x")
    case True
    then show ?thesis using py_in_prefix [of x "''\<newline>'' @ join_nl (y # ys)"] by simp
  next
    case False
    with 3 have "py_in c (join_nl (y # ys))" by simp
    from py_in_mono [OF this, of "x @ ''\<newline>''" "[]"] show ?thesis by simp
  qed
qed

lemma fallback_echoes:
  assumes "c \<in> set cs"
  shows "py_in (fallback_entry c) (generate_fallback_analysis code cs)"
proof -
  have "fallback_entry c \<in> set (map fallback_entry cs)" using assms by simp
  then have "py_in (fallback_entry c) (join_nl (map fallback_entry cs))" by (rule join_nl_in)
  moreover have "join_nl (map fallback_entry cs) \<in> set
       ['''',
        ''# Empathetic Code Review Report'',
        '''',
        ''## Analysis Error Recovery'',
        '''',
        ''I encountered an issue while generating the full empathetic analysis. Here's a basic supportive framework:'',
        '''',
        ''### Code Review Comments Transformation'',
        '''',
        join_nl (map fallback_entry cs),
        '''',
        ''### Code Snippet Analysis'',
        ''```python'',
        code,
        ''```'',
        '''',
        ''### Encouragement'',
        ''Every developer is on a learning journey, and code reviews are valuable opportunities for growth. The suggestions provided are meant to help you write even better code and develop stronger programming skills.'',
        '''',
        ''*Note: This is a fallback analysis due to API limitations. The full system would provide detailed, empathetic feedback for each comment.*'']"
    by simp
  ultimately show ?thesis unfolding generate_fallback_analysis_def by (rule py_in_line [rotated])
qed


lemma main_reaches_report:
  assumes "length (argv env) = 2" "input_exists env" "api_key env = Some k" "k \<noteq> []"
    "loaded env = Loaded input_data"
    "generate_review_report (response env) (clk env) input_data w = (Inr r, w')"
  shows "main env w =
     (case write_error env of
        Some (OpenFailed m) \<Rightarrow> (ErrorPrinted m, w')
      | Some (WriteFailed m n) \<Rightarrow>
          (ErrorPrinted m, w'\<lparr>files := files w' @ [(output_filename (clk env), take n r)]\<rparr>)
      | None \<Rightarrow> (ReportSaved (output_filename (clk env)),
          w'\<lparr>files := files w' @ [(output_filename (clk env), r)]\<rparr>))"
  using assms by (simp add: main_def split: option.splits write_failure.splits)

lemma generate_invalid:
  assumes "map_of input_data ''code_snippet'' = None \<or>
     map_of input_data ''review_comments'' = None \<or>
     (\<exists>r. map_of input_data ''review_comments'' = Some r \<and> \<not> is_list r)"
  shows "generate_review_report resp c input_data w =
     (Inr (error_report_text c
        (if map_of input_data ''code_snippet'' = None \<or>
            map_of input_data ''review_comments'' = None
         then missing_keys_message else not_a_list_message)), w)"
proof (cases "map_of input_data ''code_snippet'' = None \<or>
     map_of input_data ''review_comments'' = None")
  case True
  then show ?thesis
    using report_body_invalid [OF True] by (simp add: generate_review_report_def)
next
  case False
  with assms obtain v r where "map_of input_data ''code_snippet'' = Some v"
    "map_of input_data ''review_comments'' = Some r" "\<not> is_list r" by auto
  from report_body_not_list [OF this] False show ?thesis
    by (auto simp: generate_review_report_def)
qed

lemma error_report_details: "py_in details (error_report_text c details)"
proof -
  have "py_in details (''**Error Details:** '' @ details @ [])"
    by (rule py_in_append)
  then show ?thesis
    unfolding error_report_text_def
    by (intro py_in_line [where l = "''**Error Details:** '' @ details"]) simp_all
qed

lemma lower_upper_char: "lower_char (upper_char c) = lower_char c"
  by (simp add: lower_char_def upper_char_def)

lemma lower_lower_char: "lower_char (lower_char c) = lower_char c"
  by (simp add: lower_char_def)

lemma lower_title_from: "lower (title_from b s) = lower s"
  by (induction s arbitrary: b) (simp_all add: lower_def lower_upper_char lower_lower_char)

lemma lower_title: "lower (title s) = lower s"
  by (simp add: title_def lower_title_from)

lemma lower_append: "lower (a @ b) = lower a @ lower b"
  by (simp add: lower_def)

lemma ci_in_title: "ci_in p (a @ title p @ b)"
  unfolding ci_in_def lower_append lower_title by (rule py_in_append)

lemma ci_in_mono: "ci_in p s \<Longrightarrow> ci_in p (a @ s @ b)"
  unfolding ci_in_def lower_append by (rule py_in_mono)

lemma header_language:
  "py_in (''**Language Detected:** '' @ title language) (lines_text (header_lines language n c))"
  unfolding header_lines_def
  by (intro py_in_line [where l = "''**Language Detected:** '' @ title language"])
    (simp_all add: py_in_prefix [of _ "[]", simplified])

lemma header_count:
  "py_in (''**Comments Analyzed:** '' @ str_nat n) (lines_text (header_lines language n c))"
  unfolding header_lines_def
  by (intro py_in_line [where l = "''**Comments Analyzed:** '' @ str_nat n"])
    (simp_all add: py_in_prefix [of _ "[]", simplified])

lemma header_language_ci: "ci_in language (lines_text (header_lines language n c))"
proof -
  have "lines_text (header_lines language n c) =
      (''# Empathetic Code Review Report'' @ ''\<newline>'' @ ''\<newline>''
         @ ''**Generated:** '' @ generated c @ ''\<newline>'' @ ''**Language Detected:** '')
      @ title language
      @ (''\<newline>'' @ lines_text (drop 4 (header_lines language n c)))"
    by (simp add: header_lines_def lines_text_simps)
  then show ?thesis using ci_in_title by metis
qed

lemma py_in_report_header:
  "py_in p (lines_text (header_lines language n c)) \<Longrightarrow> py_in p (report_text language n c a)"
  unfolding report_text_split using py_in_mono [of p _ "[]"] by simp

lemma ci_in_report_header:
  "ci_in p (lines_text (header_lines language n c)) \<Longrightarrow> ci_in p (report_text language n c a)"
  unfolding report_text_split using ci_in_mono [of p _ "[]"] by simp

lemma detect_x1: "detect_programming_language ''x=1'' = ''python''"
  by code_simp

lemma str_nat_0: "str_nat 0 = ''0''"
  by code_simp

lemma str_nat_1: "str_nat (Suc 0) = ''1''"
  by code_simp

lemma title_python: "title ''python'' = ''Python''"
  by code_simp

lemma prefix_before_sep:
  assumes "prefix p (u @ x # r)" and "x \<notin> set p"
  shows "prefix p u"
proof -
  from assms(1) consider "prefix p u" | us where "p = u @ us" "prefix us (x # r)"
    by (auto simp: prefix_append)
  then show ?thesis
  proof cases
    case 1
    then show ?thesis .
  next
    case 2
    with assms(2) have "us = []" by (cases us) auto
    with 2 show ?thesis by simp
  qed
qed

lemma py_in_sep:
  assumes "x \<notin> set p"
  shows "py_in p (l @ x # r) \<longleftrightarrow> py_in p l \<or> py_in p r"
proof
  assume "py_in p l \<or> py_in p r"
  then show "py_in p (l @ x # r)"
    using py_in_mono [of p l "[]" "x # r"] py_in_mono [of p r "l @ [x]" "[]"] by auto
next
  assume "py_in p (l @ x # r)"
  then show "py_in p l \<or> py_in p r"
  proof (induction l)
    case Nil
    then have "prefix p ([] @ x # r) \<or> py_in p r" by simp
    then show ?case using prefix_before_sep [OF _ assms, of "[]" r] by auto
  next
    case (Cons c l)
    then have "prefix p ((c # l) @ x # r) \<or> py_in p (l @ x # r)" by simp
    then show ?case using prefix_before_sep [OF _ assms, of "c # l" r] Cons.IH by auto
  qed
qed

lemma py_in_lines_text:
  assumes "CHR 0x0A \<notin> set p" and "p \<noteq> []"
  shows "py_in p (lines_text ls) \<longleftrightarrow> list_ex (py_in p) ls"
  using assms by (induction ls) (simp_all add: lines_text_simps py_in_sep)

lemma matches_set_iff:
  "matches_set tag c \<longleftrightarrow>
     (\<exists>k \<in> set (patterns_of severity_patterns tag). \<exists>a b. lower c = a @ lower k @ b)"
  by (simp add: matches_set_def ci_in_def py_in_iff list_ex_iff)

lemma detect_loop_default:
  "list_all (\<lambda>entry. score (snd entry) code_lower < 2) table \<Longrightarrow>
   detect_loop table code_lower = ''python''"
  by (induction table code_lower rule: detect_loop.induct) auto

lemma detect_loop_first:
  "list_all (\<lambda>entry. score (snd entry) code_lower < 2) before \<Longrightarrow>
   score patterns code_lower \<ge> 2 \<Longrightarrow>
   detect_loop (before @ (language, patterns) # rest) code_lower = language"
  by (induction before code_lower rule: detect_loop.induct) auto

lemma links_truncated:
  "get_documentation_links ''python'' ''Performance of boolean naming in a method'' =
     [''https://docs.python.org/3/tutorial/datastructures.html#list-comprehensions'',
      ''https://docs.python.org/3/library/itertools.html''] \<and>
   length (rule_links ''python'' ''Performance of boolean naming in a method'') = 5"
  by code_simp

lemma fallback_entry_text:
  "fallback_entry =
     (\<lambda>comment. ''**Original**: '' @ comment @ ''\<newline>''
        @ ''**Supportive Approach**: Let's explore how we can improve this area together.''
        @ ''\<newline>'')"
  by (rule ext) (simp add: fallback_entry_def)

lemma fallback_block:
  "py_in (''### Code Review Comments Transformation'' @ ''\<newline>\<newline>''
          @ join_nl (map fallback_entry cs) @ ''\<newline>\<newline>''
          @ ''### Code Snippet Analysis'' @ ''\<newline>'' @ ''```python'' @ ''\<newline>''
          @ code @ ''\<newline>'' @ ''```'' @ ''\<newline>'')
     (generate_fallback_analysis code cs)"
proof -
  let ?block = "''### Code Review Comments Transformation'' @ ''\<newline>\<newline>''
          @ join_nl (map fallback_entry cs) @ ''\<newline>\<newline>''
          @ ''### Code Snippet Analysis'' @ ''\<newline>'' @ ''```python'' @ ''\<newline>''
          @ code @ ''\<newline>'' @ ''```'' @ ''\<newline>''"
  have "generate_fallback_analysis code cs =
      lines_text (take 7 ['''',
        ''# Empathetic Code Review Report'',
        '''',
        ''## Analysis Error Recovery'',
        '''',
        ''I encountered an issue while generating the full empathetic analysis. Here's a basic supportive framework:'',
        ''''])
      @ ?block
      @ lines_text ['''',
        ''### Encouragement'',
        ''Every developer is on a learning journey, and code reviews are valuable opportunities for growth. The suggestions provided are meant to help you write even better code and develop stronger programming skills.'',
        '''',
        ''*Note: This is a fallback analysis due to API limitations. The full system would provide detailed, empathetic feedback for each comment.*'']"
    by (simp add: generate_fallback_analysis_def lines_text_simps)
  then show ?thesis using py_in_append by metis
qed

section \<open>Severity classification\<close>

text \<open>
  Claim C1. For every comment, \<open>classify_comment_severity\<close> gives what the case-insensitive
  search through the four keyword sets gives, taken in the order critical, major, minor,
  style: the tag of the first set with a matching keyword. In particular a comment with a
  keyword of the critical set is \<open>critical\<close>, whatever else it matches.
\<close>

theorem classify_priority_order:
  "classify_comment_severity c = classify_severity_spec c \<and>
   (matches_set ''critical'' c \<longrightarrow> classify_comment_severity c = ''critical'')"
  using classify_refines [of c] by (simp add: classify_severity_spec_def)

text \<open>
  The comment of the specification's design notes, with its critical keyword in capitals:
  it matches the critical set and the style set, and is \<open>critical\<close>.
\<close>

theorem classify_priority_order_witness:
  "matches_set ''critical'' ''This is a TERRIBLE but minor style issue'' \<and>
   matches_set ''style'' ''This is a TERRIBLE but minor style issue'' \<and>
   classify_comment_severity ''This is a TERRIBLE but minor style issue'' = ''critical''"
proof -
  have "matches_set ''critical'' ''This is a TERRIBLE but minor style issue''" by code_simp
  moreover have "matches_set ''style'' ''This is a TERRIBLE but minor style issue''" by code_simp
  ultimately show ?thesis
    using classify_priority_order [of "''This is a TERRIBLE but minor style issue''"] by blast
qed

text \<open>
  Claim C5. A comment in which no keyword of any of the four sets occurs
  (case-insensitively, as the classifier searches) is \<open>minor\<close>.
\<close>

theorem classify_default_minor:
  assumes "\<not> matches_set ''critical'' c" and "\<not> matches_set ''major'' c"
    and "\<not> matches_set ''minor'' c" and "\<not> matches_set ''style'' c"
  shows "classify_comment_severity c = ''minor''"
  using assms classify_refines [of c] by (simp add: classify_severity_spec_def)

theorem classify_default_minor_witness:
  "classify_comment_severity ''Please add a docstring here'' = ''minor''"
proof -
  have "\<not> matches_set ''critical'' ''Please add a docstring here''"
    "\<not> matches_set ''major'' ''Please add a docstring here''"
    "\<not> matches_set ''minor'' ''Please add a docstring here''"
    "\<not> matches_set ''style'' ''Please add a docstring here''"
    by code_simp+
  then show ?thesis by (rule classify_default_minor)
qed

section \<open>Language detection\<close>

text \<open>
  Claim C2, at the snippet \<open>using System;\<close>, line feed, \<open>namespace Demo { }\<close>. Two tokens of
  \<open>csharp\<close> occur in it case-insensitively, \<open>using System\<close> and \<open>namespace\<close>, and no
  earlier language has two, so the detection that the claim describes answers \<open>csharp\<close>.
  The code lowers the snippet and leaves the tokens as they are written; \<open>using System\<close>
  has a capital and can never occur in lowered text, the code counts one token, and
  answers \<open>python\<close>.
\<close>

theorem detect_csharp_capital_tokens:
  "detect_programming_language ''using System;\<newline>namespace Demo { }'' = ''python'' \<and>
   detect_language_spec ''using System;\<newline>namespace Demo { }'' = ''csharp'' \<and>
   ci_score (patterns_of language_patterns ''csharp'')
     ''using System;\<newline>namespace Demo { }'' = 2 \<and>
   score (patterns_of language_patterns ''csharp'')
     (lower ''using System;\<newline>namespace Demo { }'') = 1"
  by code_simp

text \<open>
  Claim C6. The snippet of the specification is detected as \<open>java\<close>: the four tokens
  \<open>public class\<close>, \<open>public \<close>, \<open>static \<close> and \<open>void main\<close> of \<open>java\<close> occur in it, and the
  two languages before \<open>java\<close> in the table have fewer than two tokens in it.
\<close>

theorem detect_java_example:
  "detect_programming_language ''public class Foo { public static void main(String[] a) {} }''
     = ''java'' \<and>
   filter (\<lambda>pattern. py_in pattern
       (lower ''public class Foo { public static void main(String[] a) {} }''))
     (patterns_of language_patterns ''java'')
     = [''public class'', ''public '', ''static '', ''void main''] \<and>
   score (patterns_of language_patterns ''python'')
     (lower ''public class Foo { public static void main(String[] a) {} }'') < 2 \<and>
   score (patterns_of language_patterns ''javascript'')
     (lower ''public class Foo { public static void main(String[] a) {} }'') < 2"
  by code_simp

section \<open>Documentation links\<close>

text \<open>
  Claim C10. For every language and topic \<open>get_documentation_links\<close> returns one or two
  links: the generic link alone when no rule of the language and topic applies, and
  otherwise the first two of the links that the rules gathered.
\<close>

theorem documentation_links_bounds:
  "1 \<le> length (get_documentation_links language topic) \<and>
   length (get_documentation_links language topic) \<le> 2 \<and>
   (rule_links language topic = [] \<longrightarrow>
      get_documentation_links language topic = [generic_link]) \<and>
   get_documentation_links language topic =
     take 2 (if rule_links language topic = [] then [generic_link]
             else rule_links language topic)"
  by (auto simp: get_documentation_links_def Let_def Suc_le_eq)

theorem documentation_links_bounds_witness:
  "rule_links ''java'' ''naming'' = [] \<and>
   get_documentation_links ''java'' ''naming'' = [generic_link]"
proof -
  have "rule_links ''java'' ''naming'' = []" by (simp add: rule_links_def)
  then show ?thesis using documentation_links_bounds [of "''java''" "''naming''"] by blast
qed

section \<open>Report generation\<close>

text \<open>
  Claim C9. For every input dictionary, every answer of the model client and every clock,
  \<open>generate_review_report\<close> returns a text: whatever exception the body of its \<open>try\<close>
  raises becomes the error report with the text of that exception.
\<close>

theorem generate_review_report_never_raises:
  "(\<exists>s. fst (generate_review_report resp c input_data w) = Inr s) \<and>
   (\<forall>e. fst (report_body resp c input_data w) = Inl e \<longrightarrow>
      fst (generate_review_report resp c input_data w) = Inr (error_report_text c (message e)))"
  by (auto simp: generate_review_report_def split: prod.splits sum.splits)

text \<open>
  An internal failure: the snippet is the number 5, \<open>lower\<close> raises in the body, and the
  function returns the error report.
\<close>

theorem generate_review_report_never_raises_witness:
  "fst (report_body (Inr ''ok'')
       \<lparr>generated = ''2025-01-01 12:00:00'', processing_time = ''0.00'',
        error_time = ''2025-01-01 12:00:00'', file_timestamp = ''20250101_120000''\<rparr>
       [(''code_snippet'', JInt 5), (''review_comments'', JList [])]
       \<lparr>model_calls = 0, files = []\<rparr>) = Inl (no_lower (JInt 5)) \<and>
   fst (generate_review_report (Inr ''ok'')
       \<lparr>generated = ''2025-01-01 12:00:00'', processing_time = ''0.00'',
        error_time = ''2025-01-01 12:00:00'', file_timestamp = ''20250101_120000''\<rparr>
       [(''code_snippet'', JInt 5), (''review_comments'', JList [])]
       \<lparr>model_calls = 0, files = []\<rparr>)
   = Inr (error_report_text
       \<lparr>generated = ''2025-01-01 12:00:00'', processing_time = ''0.00'',
        error_time = ''2025-01-01 12:00:00'', file_timestamp = ''20250101_120000''\<rparr>
       (message (no_lower (JInt 5))))"
proof -
  let ?c = "\<lparr>generated = ''2025-01-01 12:00:00'', processing_time = ''0.00'',
        error_time = ''2025-01-01 12:00:00'', file_timestamp = ''20250101_120000''\<rparr>"
  let ?i = "[(''code_snippet'', JInt 5), (''review_comments'', JList [])]"
  let ?w = "\<lparr>model_calls = 0, files = []\<rparr>"
  have h: "fst (report_body (Inr ''ok'') ?c ?i ?w) = Inl (no_lower (JInt 5))"
    by (simp add: report_body_def analyze_code_review_def)
  with generate_review_report_never_raises [of "Inr ''ok''" ?c ?i ?w] show ?thesis by blast
qed

text \<open>
  Claim C3, as the code has it. When the input dictionary lacks \<open>code_snippet\<close> or
  \<open>review_comments\<close>, or \<open>review_comments\<close> is not a list, \<open>generate_review_report\<close>
  leaves the world as it found it, so the model client is not called, and returns the
  error report that shows the message of the validation error. A run of \<open>main\<close> that
  loaded this input and can write its output then saves that error report under the
  timestamped file name.
\<close>

theorem invalid_input_error_report:
  assumes "map_of input_data ''code_snippet'' = None \<or>
     map_of input_data ''review_comments'' = None \<or>
     (\<exists>r. map_of input_data ''review_comments'' = Some r \<and> \<not> is_list r)"
    and "length (argv env) = 2" "input_exists env" "api_key env = Some k" "k \<noteq> []"
    and "loaded env = Loaded input_data" "write_error env = None"
  shows "\<exists>details \<in> {missing_keys_message, not_a_list_message}.
     generate_review_report resp c input_data w = (Inr (error_report_text c details), w) \<and>
     py_in details (error_report_text c details) \<and>
     main env w = (ReportSaved (output_filename (clk env)),
       w\<lparr>files := files w @ [(output_filename (clk env), error_report_text (clk env) details)]\<rparr>)"
proof -
  define details where "details =
     (if map_of input_data ''code_snippet'' = None \<or>
         map_of input_data ''review_comments'' = None
      then missing_keys_message else not_a_list_message)"
  have g: "generate_review_report resp' c' input_data w = (Inr (error_report_text c' details), w)"
    for resp' c'
    unfolding details_def using assms(1) by (rule generate_invalid)
  have "main env w = (ReportSaved (output_filename (clk env)),
       w\<lparr>files := files w @ [(output_filename (clk env), error_report_text (clk env) details)]\<rparr>)"
    using main_reaches_report [OF assms(2-6) g] assms(7) by simp
  moreover have "details \<in> {missing_keys_message, not_a_list_message}"
    by (simp add: details_def)
  ultimately show ?thesis using g error_report_details by blast
qed

text \<open>The comments are a text and not a list: the error report, and no model call.\<close>

theorem invalid_input_error_report_witness:
  "\<exists>details \<in> {missing_keys_message, not_a_list_message}.
     generate_review_report (Inr ''ok'')
       \<lparr>generated = ''2025-01-01 12:00:00'', processing_time = ''0.00'',
        error_time = ''2025-01-01 12:00:00'', file_timestamp = ''20250101_120000''\<rparr>
       [(''code_snippet'', JStr ''x=1''), (''review_comments'', JStr ''terrible'')]
       \<lparr>model_calls = 0, files = []\<rparr>
     = (Inr (error_report_text
         \<lparr>generated = ''2025-01-01 12:00:00'', processing_time = ''0.00'',
          error_time = ''2025-01-01 12:00:00'', file_timestamp = ''20250101_120000''\<rparr> details),
        \<lparr>model_calls = 0, files = []\<rparr>)"
proof -
  let ?input = "[(''code_snippet'', JStr ''x=1''), (''review_comments'', JStr ''terrible'')]"
  let ?env = "\<lparr>argv = [''empathetic_code_reviewer.py'', ''input.json''], input_exists = True,
      api_key = Some ''sk-test'', loaded = Loaded ?input, response = Inr ''ok'',
      clk = \<lparr>generated = ''2025-01-01 12:00:00'', processing_time = ''0.00'',
        error_time = ''2025-01-01 12:00:00'', file_timestamp = ''20250101_120000''\<rparr>,
      write_error = None\<rparr>"
  have h: "map_of ?input ''code_snippet'' = None \<or>
     map_of ?input ''review_comments'' = None \<or>
     (\<exists>r. map_of ?input ''review_comments'' = Some r \<and> \<not> is_list r)"
    by simp
  from invalid_input_error_report [OF h, of ?env "''sk-test''"] show ?thesis by simp blast
qed

text \<open>
  The claim as it is written says that no output file is written. A run whose input has
  no \<open>code_snippet\<close> ends with the report saved: the file holds the error report.
\<close>

theorem invalid_input_report_is_written:
  "main \<lparr>argv = [''empathetic_code_reviewer.py'', ''input.json''], input_exists = True,
      api_key = Some ''sk-test'', loaded = Loaded [(''review_comments'', JList [])],
      response = Inr ''ok'',
      clk = \<lparr>generated = ''2025-01-01 12:00:00'', processing_time = ''0.00'',
        error_time = ''2025-01-01 12:00:00'', file_timestamp = ''20250101_120000''\<rparr>,
      write_error = None\<rparr>
     \<lparr>model_calls = 0, files = []\<rparr>
   = (ReportSaved ''empathetic_review_report_20250101_120000.md'',
      \<lparr>model_calls = 0,
       files = [(''empathetic_review_report_20250101_120000.md'',
         error_report_text
           \<lparr>generated = ''2025-01-01 12:00:00'', processing_time = ''0.00'',
            error_time = ''2025-01-01 12:00:00'', file_timestamp = ''20250101_120000''\<rparr>
           ''Input must contain 'code_snippet' and 'review_comments' keys'')]\<rparr>)"
  by (simp add: main_def generate_review_report_def report_body_def output_filename_def
      missing_keys_message_def)

text \<open>
  Claim C4. When the model client raises on a valid input (the snippet a text, the
  comments a list of texts), the report is the header, then the fallback analysis, then the
  footer. The fallback echoes every original comment: it holds, for each comment, the
  line \<open>**Original**: \<close> with the comment and the line with the supportive sentence,
  and between its heading for the transformed comments and the fenced snippet it holds
  these entries for all comments in their order. The run of \<open>main\<close> ends normally: with
  the report saved, or with the error of the write printed, the output file then absent
  when \<open>open\<close> failed and cut short when \<open>write\<close> failed.
\<close>

theorem provider_failure_fallback_report:
  assumes "map_of input_data ''code_snippet'' = Some (JStr code)"
    and "map_of input_data ''review_comments'' = Some (JList (map JStr comments))"
    and "response env = Inl e"
    and "length (argv env) = 2" "input_exists env" "api_key env = Some k" "k \<noteq> []"
    and "loaded env = Loaded input_data"
  shows "generate_review_report (Inl e) c input_data w =
       (Inr (lines_text (header_lines (detect_programming_language code) (length comments) c)
               @ generate_fallback_analysis code comments @ ''\<newline>''
               @ lines_text footer_lines),
        w\<lparr>model_calls := Suc (model_calls w)\<rparr>) \<and>
     list_all (\<lambda>comment.
         py_in (''**Original**: '' @ comment @ ''\<newline>''
                @ ''**Supportive Approach**: Let's explore how we can improve this area together.''
                @ ''\<newline>'')
           (generate_fallback_analysis code comments)) comments \<and>
     py_in (''### Code Review Comments Transformation'' @ ''\<newline>\<newline>''
            @ join_nl (map (\<lambda>comment. ''**Original**: '' @ comment @ ''\<newline>''
                 @ ''**Supportive Approach**: Let's explore how we can improve this area together.''
                 @ ''\<newline>'') comments)
            @ ''\<newline>\<newline>''
            @ ''### Code Snippet Analysis'' @ ''\<newline>'' @ ''```python'' @ ''\<newline>''
            @ code @ ''\<newline>'' @ ''```'' @ ''\<newline>'')
       (generate_fallback_analysis code comments) \<and>
     main env w =
       (case write_error env of
          Some (OpenFailed m) \<Rightarrow> (ErrorPrinted m, w\<lparr>model_calls := Suc (model_calls w)\<rparr>)
        | Some (WriteFailed m n) \<Rightarrow>
           (ErrorPrinted m,
            w\<lparr>model_calls := Suc (model_calls w),
              files := files w @ [(output_filename (clk env),
                take n (report_text (detect_programming_language code) (length comments)
                  (clk env) (generate_fallback_analysis code comments)))]\<rparr>)
        | None \<Rightarrow>
           (ReportSaved (output_filename (clk env)),
            w\<lparr>model_calls := Suc (model_calls w),
              files := files w @ [(output_filename (clk env),
                report_text (detect_programming_language code) (length comments) (clk env)
                  (generate_fallback_analysis code comments))]\<rparr>))"
proof -
  have g: "generate_review_report (Inl e) c' input_data w =
       (Inr (report_text (detect_programming_language code) (length comments) c'
          (generate_fallback_analysis code comments)),
        w\<lparr>model_calls := Suc (model_calls w)\<rparr>)" for c'
    using generate_valid [OF assms(1,2), of "Inl e" c' w] by simp
  have m: "generate_review_report (response env) (clk env) input_data w =
       (Inr (report_text (detect_programming_language code) (length comments) (clk env)
          (generate_fallback_analysis code comments)),
        w\<lparr>model_calls := Suc (model_calls w)\<rparr>)"
    using g [of "clk env"] assms(3) by simp
  have echo: "list_all (\<lambda>comment.
         py_in (''**Original**: '' @ comment @ ''\<newline>''
                @ ''**Supportive Approach**: Let's explore how we can improve this area together.''
                @ ''\<newline>'')
           (generate_fallback_analysis code comments)) comments"
    using fallback_echoes [of _ comments code]
    unfolding fallback_entry_text list_all_iff by blast
  have block: "py_in (''### Code Review Comments Transformation'' @ ''\<newline>\<newline>''
            @ join_nl (map (\<lambda>comment. ''**Original**: '' @ comment @ ''\<newline>''
                 @ ''**Supportive Approach**: Let's explore how we can improve this area together.''
                 @ ''\<newline>'') comments)
            @ ''\<newline>\<newline>''
            @ ''### Code Snippet Analysis'' @ ''\<newline>'' @ ''```python'' @ ''\<newline>''
            @ code @ ''\<newline>'' @ ''```'' @ ''\<newline>'')
       (generate_fallback_analysis code comments)"
    using fallback_block [of comments code] unfolding fallback_entry_text .
  have run: "main env w =
       (case write_error env of
          Some (OpenFailed m) \<Rightarrow> (ErrorPrinted m, w\<lparr>model_calls := Suc (model_calls w)\<rparr>)
        | Some (WriteFailed m n) \<Rightarrow>
           (ErrorPrinted m,
            w\<lparr>model_calls := Suc (model_calls w),
              files := files w @ [(output_filename (clk env),
                take n (report_text (detect_programming_language code) (length comments)
                  (clk env) (generate_fallback_analysis code comments)))]\<rparr>)
        | None \<Rightarrow>
           (ReportSaved (output_filename (clk env)),
            w\<lparr>model_calls := Suc (model_calls w),
              files := files w @ [(output_filename (clk env),
                report_text (detect_programming_language code) (length comments) (clk env)
                  (generate_fallback_analysis code comments))]\<rparr>))"
    using main_reaches_report [OF assms(4-8) m]
    by (simp split: option.splits write_failure.splits)
  have "generate_review_report (Inl e) c input_data w =
       (Inr (lines_text (header_lines (detect_programming_language code) (length comments) c)
               @ generate_fallback_analysis code comments @ ''\<newline>''
               @ lines_text footer_lines),
        w\<lparr>model_calls := Suc (model_calls w)\<rparr>)"
    using g [of c] by (simp add: report_text_split)
  with echo block run show ?thesis by (intro conjI)
qed

text \<open>
  A failing client on one comment: the comment and the supportive sentence are in the
  fallback, and the report with the fallback is saved.
\<close>

theorem provider_failure_fallback_report_witness:
  "py_in (''**Original**: This is terrible'' @ ''\<newline>''
          @ ''**Supportive Approach**: Let's explore how we can improve this area together.''
          @ ''\<newline>'')
     (generate_fallback_analysis ''x=1'' [''This is terrible'']) \<and>
   main \<lparr>argv = [''empathetic_code_reviewer.py'', ''input.json''], input_exists = True,
      api_key = Some ''sk-test'',
      loaded = Loaded [(''code_snippet'', JStr ''x=1''),
        (''review_comments'', JList [JStr ''This is terrible''])],
      response = Inl (ClientError ''Connection error.''),
      clk = \<lparr>generated = ''2025-01-01 12:00:00'', processing_time = ''0.00'',
        error_time = ''2025-01-01 12:00:00'', file_timestamp = ''20250101_120000''\<rparr>,
      write_error = None\<rparr>
     \<lparr>model_calls = 0, files = []\<rparr>
   = (ReportSaved ''empathetic_review_report_20250101_120000.md'',
      \<lparr>model_calls = 1,
       files = [(''empathetic_review_report_20250101_120000.md'',
         report_text ''python'' 1
           \<lparr>generated = ''2025-01-01 12:00:00'', processing_time = ''0.00'',
            error_time = ''2025-01-01 12:00:00'', file_timestamp = ''20250101_120000''\<rparr>
           (generate_fallback_analysis ''x=1'' [''This is terrible'']))]\<rparr>)"
proof -
  let ?input = "[(''code_snippet'', JStr ''x=1''),
        (''review_comments'', JList [JStr ''This is terrible''])]"
  let ?c = "\<lparr>generated = ''2025-01-01 12:00:00'', processing_time = ''0.00'',
        error_time = ''2025-01-01 12:00:00'', file_timestamp = ''20250101_120000''\<rparr>"
  let ?env = "\<lparr>argv = [''empathetic_code_reviewer.py'', ''input.json''], input_exists = True,
      api_key = Some ''sk-test'', loaded = Loaded ?input,
      response = Inl (ClientError ''Connection error.''), clk = ?c, write_error = None\<rparr>"
  have h1: "map_of ?input ''code_snippet'' = Some (JStr ''x=1'')" by simp
  have h2: "map_of ?input ''review_comments'' = Some (JList (map JStr [''This is terrible'']))"
    by simp
  have h3: "response ?env = Inl (ClientError ''Connection error.'')" by simp
  have h4: "length (argv ?env) = 2" "input_exists ?env" "api_key ?env = Some ''sk-test''"
    "''sk-test'' \<noteq> []" "loaded ?env = Loaded ?input"
    by simp_all
  from provider_failure_fallback_report [OF h1 h2 h3 h4, of ?c "\<lparr>model_calls = 0, files = []\<rparr>"]
  show ?thesis by (simp add: detect_x1 output_filename_def)
qed

text \<open>
  Claim C7, as the code has it. For the snippet \<open>x=1\<close> with no comments the report is
  the header for \<open>python\<close> and 0 comments, the analysis, and the footer, for every answer
  of the model client. The header holds the text \<open>**Comments Analyzed:** 0\<close>. When the
  client fails the analysis is the fallback, and nothing but empty lines stands between
  its heading for the transformed comments and its next heading.
\<close>

theorem empty_comments_report:
  "generate_review_report resp c
       [(''code_snippet'', JStr ''x=1''), (''review_comments'', JList [])] w =
     (Inr (lines_text (header_lines ''python'' 0 c)
           @ (case resp of Inr a \<Rightarrow> a | Inl e \<Rightarrow> generate_fallback_analysis ''x=1'' [])
           @ ''\<newline>'' @ lines_text footer_lines),
      w\<lparr>model_calls := Suc (model_calls w)\<rparr>) \<and>
   py_in ''**Comments Analyzed:** 0'' (lines_text (header_lines ''python'' 0 c)) \<and>
   py_in (''### Code Review Comments Transformation'' @ ''\<newline>\<newline>\<newline>\<newline>''
          @ ''### Code Snippet Analysis'')
     (generate_fallback_analysis ''x=1'' [])"
proof -
  have "generate_review_report resp c
       [(''code_snippet'', JStr ''x=1''), (''review_comments'', JList [])] w =
     (Inr (report_text ''python'' 0 c
        (case resp of Inr a \<Rightarrow> a | Inl e \<Rightarrow> generate_fallback_analysis ''x=1'' [])),
      w\<lparr>model_calls := Suc (model_calls w)\<rparr>)"
    using generate_valid [of "[(''code_snippet'', JStr ''x=1''), (''review_comments'', JList [])]"
        "''x=1''" "[]" resp c w]
    by (simp add: detect_x1)
  moreover have "py_in ''**Comments Analyzed:** 0'' (lines_text (header_lines ''python'' 0 c))"
    using header_count [of 0 "''python''" c] by (simp add: str_nat_0)
  moreover have "py_in (''### Code Review Comments Transformation''
          @ ''\<newline>\<newline>\<newline>\<newline>'' @ ''### Code Snippet Analysis'')
     (generate_fallback_analysis ''x=1'' [])"
    by code_simp
  ultimately show ?thesis by (simp add: report_text_split)
qed

text \<open>
  The claim as it is written asks for the text \<open>Comments Analyzed: 0\<close>. The template
  sets the label in bold, so two asterisks stand between the colon and the blank: with a
  failing client the report for this input does not contain the text of the claim.
\<close>

theorem empty_comments_plain_label_absent:
  "fst (generate_review_report (Inl (ClientError ''Connection error.''))
       \<lparr>generated = ''2025-01-01 12:00:00'', processing_time = ''0.00'',
        error_time = ''2025-01-01 12:00:00'', file_timestamp = ''20250101_120000''\<rparr>
       [(''code_snippet'', JStr ''x=1''), (''review_comments'', JList [])]
       \<lparr>model_calls = 0, files = []\<rparr>)
   = Inr (report_text ''python'' 0
       \<lparr>generated = ''2025-01-01 12:00:00'', processing_time = ''0.00'',
        error_time = ''2025-01-01 12:00:00'', file_timestamp = ''20250101_120000''\<rparr>
       (generate_fallback_analysis ''x=1'' [])) \<and>
   \<not> py_in ''Comments Analyzed: 0''
     (report_text ''python'' 0
       \<lparr>generated = ''2025-01-01 12:00:00'', processing_time = ''0.00'',
        error_time = ''2025-01-01 12:00:00'', file_timestamp = ''20250101_120000''\<rparr>
       (generate_fallback_analysis ''x=1'' []))"
proof -
  let ?c = "\<lparr>generated = ''2025-01-01 12:00:00'', processing_time = ''0.00'',
        error_time = ''2025-01-01 12:00:00'', file_timestamp = ''20250101_120000''\<rparr>"
  let ?p = "''Comments Analyzed: 0''"
  have "fst (generate_review_report (Inl (ClientError ''Connection error.'')) ?c
       [(''code_snippet'', JStr ''x=1''), (''review_comments'', JList [])]
       \<lparr>model_calls = 0, files = []\<rparr>)
   = Inr (report_text ''python'' 0 ?c (generate_fallback_analysis ''x=1'' []))"
    using generate_valid [of "[(''code_snippet'', JStr ''x=1''), (''review_comments'', JList [])]"
        "''x=1''" "[]" "Inl (ClientError ''Connection error.'')" ?c
        "\<lparr>model_calls = 0, files = []\<rparr>"]
    by (simp add: detect_x1)
  moreover have p: "CHR 0x0A \<notin> set ?p" "?p \<noteq> []" by simp_all
  have "\<not> list_ex (py_in ?p) (header_lines ''python'' 0 ?c)" by code_simp
  moreover have "\<not> list_ex (py_in ?p) footer_lines" by code_simp
  moreover have "\<not> py_in ?p (generate_fallback_analysis ''x=1'' [])"
    unfolding generate_fallback_analysis_def py_in_lines_text [OF p] by code_simp
  ultimately show ?thesis
    unfolding report_text_def py_in_lines_text [OF p] by simp
qed

text \<open>
  Claim C8, as the code has it. For every valid input, a run of \<open>main\<close> that loads it and
  can write its output saves a report that holds the detected language in title case
  after its label, so the tag itself case-insensitively, and the number of comments in
  decimal after its label.
\<close>

theorem written_report_metadata:
  assumes "map_of input_data ''code_snippet'' = Some (JStr code)"
    and "map_of input_data ''review_comments'' = Some (JList (map JStr comments))"
    and "length (argv env) = 2" "input_exists env" "api_key env = Some k" "k \<noteq> []"
    and "loaded env = Loaded input_data" "write_error env = None"
  shows "\<exists>report.
     files (snd (main env w)) = files w @ [(output_filename (clk env), report)] \<and>
     py_in (''**Language Detected:** '' @ title (detect_programming_language code)) report \<and>
     ci_in (detect_programming_language code) report \<and>
     py_in (''**Comments Analyzed:** '' @ str_nat (length comments)) report"
proof -
  define analysis where "analysis =
     (case response env of Inr a \<Rightarrow> a | Inl e \<Rightarrow> generate_fallback_analysis code comments)"
  define report where "report =
     report_text (detect_programming_language code) (length comments) (clk env) analysis"
  have "generate_review_report (response env) (clk env) input_data w =
       (Inr report, w\<lparr>model_calls := Suc (model_calls w)\<rparr>)"
    unfolding report_def analysis_def by (rule generate_valid [OF assms(1,2)])
  from main_reaches_report [OF assms(3-7) this] assms(8)
  have "files (snd (main env w)) = files w @ [(output_filename (clk env), report)]"
    by simp
  moreover have "py_in (''**Language Detected:** '' @ title (detect_programming_language code)) report"
    unfolding report_def by (intro py_in_report_header header_language)
  moreover have "ci_in (detect_programming_language code) report"
    unfolding report_def by (intro ci_in_report_header header_language_ci)
  moreover have "py_in (''**Comments Analyzed:** '' @ str_nat (length comments)) report"
    unfolding report_def by (intro py_in_report_header header_count)
  ultimately show ?thesis by blast
qed

theorem written_report_metadata_witness:
  "\<exists>report.
     files (snd (main \<lparr>argv = [''empathetic_code_reviewer.py'', ''input.json''],
        input_exists = True, api_key = Some ''sk-test'',
        loaded = Loaded [(''code_snippet'', JStr ''x=1''),
          (''review_comments'', JList [JStr ''This is terrible''])],
        response = Inr ''ok'',
        clk = \<lparr>generated = ''2025-01-01 12:00:00'', processing_time = ''0.00'',
          error_time = ''2025-01-01 12:00:00'', file_timestamp = ''20250101_120000''\<rparr>,
        write_error = None\<rparr>
       \<lparr>model_calls = 0, files = []\<rparr>))
     = [(''empathetic_review_report_20250101_120000.md'', report)] \<and>
     py_in ''**Language Detected:** Python'' report \<and>
     ci_in ''python'' report \<and>
     py_in ''**Comments Analyzed:** 1'' report"
proof -
  let ?input = "[(''code_snippet'', JStr ''x=1''),
        (''review_comments'', JList [JStr ''This is terrible''])]"
  let ?c = "\<lparr>generated = ''2025-01-01 12:00:00'', processing_time = ''0.00'',
        error_time = ''2025-01-01 12:00:00'', file_timestamp = ''20250101_120000''\<rparr>"
  let ?env = "\<lparr>argv = [''empathetic_code_reviewer.py'', ''input.json''], input_exists = True,
      api_key = Some ''sk-test'', loaded = Loaded ?input,
      response = Inr ''ok'', clk = ?c, write_error = None\<rparr>"
  have h1: "map_of ?input ''code_snippet'' = Some (JStr ''x=1'')" by simp
  have h2: "map_of ?input ''review_comments'' = Some (JList (map JStr [''This is terrible'']))"
    by simp
  have h4: "length (argv ?env) = 2" "input_exists ?env" "api_key ?env = Some ''sk-test''"
    "''sk-test'' \<noteq> []" "loaded ?env = Loaded ?input" "write_error ?env = None"
    by simp_all
  from written_report_metadata [OF h1 h2 h4, of "\<lparr>model_calls = 0, files = []\<rparr>"]
  show ?thesis by (simp add: detect_x1 output_filename_def str_nat_1 title_python)
qed

text \<open>
  The claim as it is written asks for the tag that \<open>detect_programming_language\<close>
  returns. For the snippet \<open>x=1\<close> the tag is \<open>python\<close>; the header prints \<open>Python\<close>, and
  when the client answers \<open>ok\<close> the saved report does not contain \<open>python\<close>.
\<close>

theorem written_report_lacks_language_tag:
  "main \<lparr>argv = [''empathetic_code_reviewer.py'', ''input.json''], input_exists = True,
      api_key = Some ''sk-test'',
      loaded = Loaded [(''code_snippet'', JStr ''x=1''), (''review_comments'', JList [])],
      response = Inr ''ok'',
      clk = \<lparr>generated = ''2025-01-01 12:00:00'', processing_time = ''0.00'',
        error_time = ''2025-01-01 12:00:00'', file_timestamp = ''20250101_120000''\<rparr>,
      write_error = None\<rparr>
     \<lparr>model_calls = 0, files = []\<rparr>
   = (ReportSaved ''empathetic_review_report_20250101_120000.md'',
      \<lparr>model_calls = 1,
       files = [(''empathetic_review_report_20250101_120000.md'',
         report_text ''python'' 0
           \<lparr>generated = ''2025-01-01 12:00:00'', processing_time = ''0.00'',
            error_time = ''2025-01-01 12:00:00'', file_timestamp = ''20250101_120000''\<rparr>
           ''ok'')]\<rparr>) \<and>
   detect_programming_language ''x=1'' = ''python'' \<and>
   \<not> py_in ''python''
       (report_text ''python'' 0
           \<lparr>generated = ''2025-01-01 12:00:00'', processing_time = ''0.00'',
            error_time = ''2025-01-01 12:00:00'', file_timestamp = ''20250101_120000''\<rparr>
           ''ok'')"
proof -
  let ?input = "[(''code_snippet'', JStr ''x=1''), (''review_comments'', JList [])]"
  let ?c = "\<lparr>generated = ''2025-01-01 12:00:00'', processing_time = ''0.00'',
        error_time = ''2025-01-01 12:00:00'', file_timestamp = ''20250101_120000''\<rparr>"
  let ?w = "\<lparr>model_calls = 0, files = []\<rparr>"
  let ?p = "''python''"
  have "generate_review_report (Inr ''ok'') ?c ?input ?w =
      (Inr (report_text ''python'' 0 ?c ''ok''), \<lparr>model_calls = 1, files = []\<rparr>)"
    using generate_valid [of ?input "''x=1''" "[]" "Inr ''ok''" ?c ?w]
    by (simp add: detect_x1)
  then have "main \<lparr>argv = [''empathetic_code_reviewer.py'', ''input.json''],
      input_exists = True, api_key = Some ''sk-test'', loaded = Loaded ?input,
      response = Inr ''ok'', clk = ?c, write_error = None\<rparr> ?w
   = (ReportSaved ''empathetic_review_report_20250101_120000.md'',
      \<lparr>model_calls = 1,
       files = [(''empathetic_review_report_20250101_120000.md'',
         report_text ''python'' 0 ?c ''ok'')]\<rparr>)"
    by (simp add: main_def output_filename_def)
  moreover have p: "CHR 0x0A \<notin> set ?p" "?p \<noteq> []" by simp_all
  have "\<not> list_ex (py_in ?p) (header_lines ''python'' 0 ?c)" by code_simp
  moreover have "\<not> list_ex (py_in ?p) footer_lines" by code_simp
  moreover have "\<not> py_in ?p ''ok''" by code_simp
  ultimately show ?thesis
    unfolding report_text_def py_in_lines_text [OF p] using detect_x1 by simp
qed

end
